theory Spec2Isabelle
  imports Complex_Main
begin

section \<open>JavaScript strings\<close>

text \<open>
  Texts are Isabelle strings: lists of code units below 256 (the Latin-1 range).
  A character beyond U+00FF, among them the bullet U+2022 that some patterns of the
  source mention, cannot occur in such a text, so the alternatives of the source that
  test for it have no counterpart here. Within the range the white space class, the
  line terminators and the case mapping are the ones of ECMAScript.
\<close>

definition isWhitespace :: "char \<Rightarrow> bool" where
  \<comment> \<open>the class \<open>\s\<close>, which is also what \<open>trim\<close> removes\<close>
  "isWhitespace c \<longleftrightarrow> c \<in> set [CHR 0x09, CHR 0x0A, CHR 0x0B, CHR 0x0C, CHR 0x0D, CHR 0x20, CHR 0xA0]"

definition isLineTerminator :: "char \<Rightarrow> bool" where
  \<comment> \<open>the characters that \<open>.\<close> does not match\<close>
  "isLineTerminator c \<longleftrightarrow> c = CHR 0x0A \<or> c = CHR 0x0D"

definition isDigit :: "char \<Rightarrow> bool" where
  \<comment> \<open>the class \<open>\d\<close>\<close>
  "isDigit c \<longleftrightarrow> (let n = (of_char c :: nat) in 48 \<le> n \<and> n \<le> 57)"

definition toLowerChar :: "char \<Rightarrow> char" where
  "toLowerChar c =
     (let n = (of_char c :: nat)
      in if (65 \<le> n \<and> n \<le> 90) \<or> (192 \<le> n \<and> n \<le> 222 \<and> n \<noteq> 215)
         then char_of (n + 32) else c)"

definition toLowerCase :: "string \<Rightarrow> string" where
  "toLowerCase s = map toLowerChar s"

definition trim :: "string \<Rightarrow> string" where
  "trim s = rev (dropWhile isWhitespace (rev (dropWhile isWhitespace s)))"

fun startsWith :: "string \<Rightarrow> string \<Rightarrow> bool" where
  "startsWith s [] = True"
| "startsWith [] (p # ps) = False"
| "startsWith (c # cs) (p # ps) = (c = p \<and> startsWith cs ps)"

fun includes_str :: "string \<Rightarrow> string \<Rightarrow> bool" where
  "includes_str [] p = (p = [])"
| "includes_str (c # cs) p = (startsWith (c # cs) p \<or> includes_str cs p)"

text \<open>\<open>s.split(sep)\<close> for a separator of one character: empty pieces are kept.\<close>

fun splitChar :: "char \<Rightarrow> string \<Rightarrow> string list" where
  "splitChar sep [] = [[]]"
| "splitChar sep (c # cs) =
     (if c = sep then [] # splitChar sep cs
      else (case splitChar sep cs of
              [] \<Rightarrow> [[c]]
            | piece # pieces \<Rightarrow> (c # piece) # pieces))"

text \<open>
  \<open>s.slice(b, e)\<close>: a negative bound counts from the end, both bounds are clipped to
  the string, and an empty range gives the empty string.
\<close>

definition slice :: "string \<Rightarrow> int \<Rightarrow> int \<Rightarrow> string" where
  "slice s b e =
     (let len = int (length s);
          from = (if b < 0 then max (len + b) 0 else min b len);
          to = (if e < 0 then max (len + e) 0 else min e len)
      in if from < to then take (nat (to - from)) (drop (nat from) s) else [])"

section \<open>Documents and chunks (core/types.ts)\<close>

record DocumentMetadata =
  filename :: string
  fileType :: string
  size_field :: nat
  createdAt :: nat

record Document =
  id_field :: string
  content :: string
  metadata :: DocumentMetadata

record ChunkMetadata =
  startChar :: int
  endChar :: int

record DocumentChunk =
  id_field :: string
  documentId :: string
  content :: string
  index :: int
  metadata :: ChunkMetadata

section \<open>The chunker (processors/BaseProcessor.ts)\<close>

text \<open>
  \<open>uuidv4()\<close> reads the system's random source. The values it returns during one call of
  \<open>createChunks\<close> are a parameter: \<open>uuidv4 k\<close> is the result of the draw number \<open>k\<close>.
  The window size and the overlap are integers. The \<open>while\<close> loop may run forever, so it
  is a partial function whose value \<open>None\<close> stands for a call that does not return.
\<close>

partial_function (option) createChunks_loop ::
  "(nat \<Rightarrow> string) \<Rightarrow> Document \<Rightarrow> string \<Rightarrow> int \<Rightarrow> int \<Rightarrow>
   DocumentChunk list \<Rightarrow> int \<Rightarrow> int \<Rightarrow> DocumentChunk list option" where
  "createChunks_loop uuidv4 document text chunkSize overlap chunks startIndex chunkIndex =
     (if startIndex < int (length text) then
        (let endIndex = min (startIndex + chunkSize) (int (length text));
             chunkContent = slice text startIndex endIndex;
             chunk = \<lparr>DocumentChunk.id_field = uuidv4 (length chunks),
                      documentId = Document.id_field document,
                      content = chunkContent,
                      index = chunkIndex,
                      metadata = \<lparr>startChar = startIndex, endChar = endIndex\<rparr>\<rparr>
         in createChunks_loop uuidv4 document text chunkSize overlap (chunks @ [chunk])
              (endIndex - overlap) (chunkIndex + 1))
      else Some chunks)"

declare createChunks_loop.simps [code]

definition createChunks ::
  "(nat \<Rightarrow> string) \<Rightarrow> Document \<Rightarrow> string \<Rightarrow> int \<Rightarrow> int \<Rightarrow> DocumentChunk list option" where
  "createChunks uuidv4 document text chunkSize overlap =
     createChunks_loop uuidv4 document text chunkSize overlap [] 0 0"

section \<open>Local insight heuristics (processors/BaseProcessor.ts)\<close>

text \<open>
  \<open>s.split(/\s+/)\<close>: the text is cut at every maximal run of white space; a run at the
  start or at the end leaves an empty piece there, and the empty text gives one empty
  piece.
\<close>

function splitWhitespace :: "string \<Rightarrow> string list" where
  "splitWhitespace [] = [[]]"
| "splitWhitespace (c # cs) =
     (if isWhitespace c then [] # splitWhitespace (dropWhile isWhitespace cs)
      else (case splitWhitespace cs of
              [] \<Rightarrow> [[c]]
            | piece # pieces \<Rightarrow> (c # piece) # pieces))"
  by pat_completeness auto
termination
  by (relation "measure length") (auto simp: less_Suc_eq_le length_dropWhile_le)

record Insights =
  wordCount :: nat
  estimatedReadingTime :: int
  language :: string

definition englishWords :: "string list" where
  "englishWords = [''the'', ''and'', ''or'', ''but'', ''in'', ''on'', ''at'', ''to'', ''for'',
                   ''of'', ''with'', ''by'']"

text \<open>
  The comparison of the source is between doubles, \<open>englishCount > words.length * 0.1\<close>;
  both counts are far below \<open>2^53\<close>, where it agrees with the comparison of the exact
  values.
\<close>

definition detectLanguage :: "string \<Rightarrow> string" where
  "detectLanguage text =
     (let words = splitWhitespace (toLowerCase text);
          englishCount = length (filter (\<lambda>word. word \<in> set englishWords) words)
      in if real englishCount > real (length words) * (1 / 10) then ''english'' else ''unknown'')"

definition generateInsights :: "string \<Rightarrow> Insights" where
  "generateInsights text =
     (let words = filter (\<lambda>word. length word > 0) (splitWhitespace text);
          wordCount = length words;
          estimatedReadingTime = \<lceil>real wordCount / 200\<rceil>
      in \<lparr>wordCount = wordCount,
          estimatedReadingTime = estimatedReadingTime,
          language = detectLanguage text\<rparr>)"

text \<open>
  What the specification calls the tokens of a text: its maximal runs of characters that
  are not white space.
\<close>

function whitespaceTokens :: "string \<Rightarrow> string list" where
  "whitespaceTokens s =
     (let rest = dropWhile isWhitespace s
      in if rest = [] then []
         else takeWhile (\<lambda>c. \<not> isWhitespace c) rest
              # whitespaceTokens (dropWhile (\<lambda>c. \<not> isWhitespace c) rest))"
  by pat_completeness auto
termination
proof (relation "measure length")
  fix s rest :: string
  assume r: "rest = dropWhile isWhitespace s" and ne: "rest \<noteq> []"
  have "\<not> isWhitespace (hd rest)"
    using r ne hd_dropWhile by metis
  then have "length (dropWhile (\<lambda>c. \<not> isWhitespace c) rest) < length rest"
    using ne by (cases rest) (auto simp: less_Suc_eq_le length_dropWhile_le)
  also have "length rest \<le> length s"
    using r by (simp add: length_dropWhile_le)
  finally show "(dropWhile (\<lambda>c. \<not> isWhitespace c) rest, s) \<in> measure length"
    by simp
qed simp

declare whitespaceTokens.simps [simp del]

section \<open>Errors and the JavaScript runtime\<close>

text \<open>
  A thrown value is an error object with a name and a message. \<open>String(error)\<close>, which
  the template literals of the source apply, joins the two.
\<close>

datatype error = JSError string string

fun errorToString :: "error \<Rightarrow> string" where
  "errorToString (JSError name message) =
     (if name = [] then message
      else if message = [] then name
      else name @ '': '' @ message)"

section \<open>Keyword retrieval (analyzers/InsightAnalyzer.ts)\<close>

text \<open>
  \<open>new RegExp(word, 'g')\<close> hands a query word to the pattern compiler of the runtime,
  which throws on a malformed pattern. The compiler is a parameter: it gives either the
  thrown error or the function that counts the matches of the compiled pattern in a
  text, the length of \<open>text.match(pattern) || []\<close>.
\<close>

type_synonym regexp_engine = "string \<Rightarrow> error + (string \<Rightarrow> nat)"

text \<open>The reducer over the query words; a throw ends the whole call.\<close>

fun scoreContent :: "regexp_engine \<Rightarrow> string \<Rightarrow> string list \<Rightarrow> nat \<Rightarrow> error + nat" where
  "scoreContent RegExp text [] acc = Inr acc"
| "scoreContent RegExp text (word # queryWords) acc =
     (case RegExp word of
        Inl e \<Rightarrow> Inl e
      | Inr matchCount \<Rightarrow> scoreContent RegExp text queryWords (acc + matchCount text))"

fun scoreChunks ::
  "regexp_engine \<Rightarrow> string list \<Rightarrow> DocumentChunk list \<Rightarrow> error + (DocumentChunk \<times> nat) list" where
  "scoreChunks RegExp queryWords [] = Inr []"
| "scoreChunks RegExp queryWords (chunk # chunks) =
     (case scoreContent RegExp (toLowerCase (DocumentChunk.content chunk)) queryWords 0 of
        Inl e \<Rightarrow> Inl e
      | Inr score \<Rightarrow>
          (case scoreChunks RegExp queryWords chunks of
             Inl e \<Rightarrow> Inl e
           | Inr scored \<Rightarrow> Inr ((chunk, score) # scored)))"

text \<open>
  \<open>Array.prototype.sort\<close> is stable; with the comparator \<open>b.score - a.score\<close> it is the
  stable sort by falling score.
\<close>

definition sortByScore :: "(DocumentChunk \<times> nat) list \<Rightarrow> (DocumentChunk \<times> nat) list" where
  "sortByScore scored = sort_key (\<lambda>item. - int (snd item)) scored"

definition findSimilarConcepts ::
  "regexp_engine \<Rightarrow> DocumentChunk list \<Rightarrow> string \<Rightarrow> error + DocumentChunk list" where
  "findSimilarConcepts RegExp chunks query =
     (let queryWords = splitChar CHR '' '' (toLowerCase query)
      in case scoreChunks RegExp queryWords chunks of
           Inl e \<Rightarrow> Inl e
         | Inr scored \<Rightarrow>
             Inr (map fst (take 5 (sortByScore (filter (\<lambda>item. snd item > 0) scored)))))"

text \<open>
  A pattern without syntax characters stands for itself. Its global matches are found
  from left to right and do not overlap; the empty pattern matches once at every
  position of the text, the end included.
\<close>

definition syntaxCharacters :: "char list" where
  "syntaxCharacters = [CHR 0x5C, CHR ''^'', CHR ''$'', CHR ''.'', CHR ''*'', CHR ''+'', CHR ''?'',
                       CHR ''('', CHR '')'', CHR ''['', CHR '']'', CHR ''{'', CHR ''}'', CHR ''|'']"

definition plainPattern :: "string \<Rightarrow> bool" where
  "plainPattern word \<longleftrightarrow> (\<forall>c \<in> set word. c \<notin> set syntaxCharacters)"

fun countLiteral :: "string \<Rightarrow> string \<Rightarrow> nat" where
  "countLiteral word [] = 0"
| "countLiteral word (c # cs) =
     (if startsWith (c # cs) word
      then Suc (countLiteral word (drop (length word - 1) cs))
      else countLiteral word cs)"

definition literalMatchCount :: "string \<Rightarrow> string \<Rightarrow> nat" where
  "literalMatchCount word text =
     (if word = [] then length text + 1 else countLiteral word text)"

definition literalEngine :: "regexp_engine \<Rightarrow> bool" where
  "literalEngine RegExp \<longleftrightarrow>
     (\<forall>word. plainPattern word \<longrightarrow> RegExp word = Inr (literalMatchCount word))"

text \<open>
  The engine used to run examples: exact on plain patterns, and refusing every other
  pattern, which no example below contains.
\<close>

definition plainEngine :: "regexp_engine" where
  "plainEngine word =
     (if plainPattern word then Inr (literalMatchCount word)
      else Inl (JSError ''SyntaxError'' (''Invalid regular expression: /'' @ word @ ''/'')))"

text \<open>
  The score as the specification words it: over the tokens of the query separated by
  white space, the occurrences of the token in the chunk, both in lower case.
\<close>

definition specScore :: "string \<Rightarrow> DocumentChunk \<Rightarrow> nat" where
  "specScore query chunk =
     sum_list (map (\<lambda>token. countLiteral token (toLowerCase (DocumentChunk.content chunk)))
                   (whitespaceTokens (toLowerCase query)))"

definition specRetrieve :: "string \<Rightarrow> DocumentChunk list \<Rightarrow> DocumentChunk list" where
  "specRetrieve query chunks =
     take 5 (sort_key (\<lambda>chunk. - int (specScore query chunk))
                      (filter (\<lambda>chunk. specScore query chunk > 0) chunks))"

definition textChunk :: "string \<Rightarrow> int \<Rightarrow> string \<Rightarrow> DocumentChunk" where
  \<comment> \<open>a chunk with the given identifier, index and text, for examples\<close>
  "textChunk ident i text =
     \<lparr>DocumentChunk.id_field = ident, documentId = ''doc'', content = text, index = i,
      metadata = \<lparr>startChar = 0, endChar = int (length text)\<rparr>\<rparr>"

section \<open>Response parsing (analyzers/InsightAnalyzer.ts)\<close>

subsection \<open>Values read from JSON\<close>

text \<open>
  \<open>JSON.parse\<close> belongs to the runtime and is a parameter: it gives the thrown error or
  the parsed value. A number is a finite value or one of the two infinities, which a
  literal such as \<open>1e999\<close> denotes. An object lists its members, each key once.
\<close>

datatype jsnumber = Finite rat | PlusInfinity | MinusInfinity

datatype json =
    JNull
  | JBool bool
  | JNumber jsnumber
  | JString string
  | JArray "json list"
  | JObject "(string \<times> json) list"

type_synonym json_parser = "string \<Rightarrow> error + json"

fun truthy :: "json \<Rightarrow> bool" where
  "truthy JNull = False"
| "truthy (JBool b) = b"
| "truthy (JNumber (Finite q)) = (q \<noteq> 0)"
| "truthy (JNumber PlusInfinity) = True"
| "truthy (JNumber MinusInfinity) = True"
| "truthy (JString s) = (s \<noteq> [])"
| "truthy (JArray xs) = True"
| "truthy (JObject members) = True"

text \<open>
  \<open>parsed.name\<close>, for the names the parsers read: a member of an object, \<open>undefined\<close>
  (\<open>None\<close>) when it is absent and on a string, number, boolean or array, none of which
  has a property of one of these names; on \<open>null\<close> the access throws.
\<close>

fun getProperty :: "json \<Rightarrow> string \<Rightarrow> error + json option" where
  "getProperty JNull name =
     Inl (JSError ''TypeError''
            (''Cannot read properties of null (reading '' @ [CHR 0x27] @ name @ [CHR 0x27] @ '')''))"
| "getProperty (JObject members) name = Inr (map_of members name)"
| "getProperty v name = Inr None"

text \<open>\<open>value || fallback\<close>, where the value may be \<open>undefined\<close>.\<close>

fun orElse :: "json option \<Rightarrow> json \<Rightarrow> json" where
  "orElse None fallback = fallback"
| "orElse (Some v) fallback = (if truthy v then v else fallback)"

definition propertyOr :: "json \<Rightarrow> string \<Rightarrow> json \<Rightarrow> error + json" where
  "propertyOr parsed name fallback =
     (case getProperty parsed name of
        Inl e \<Rightarrow> Inl e
      | Inr v \<Rightarrow> Inr (orElse v fallback))"

text \<open>
  \<open>response.match(/\{[\s\S]*\}/)\<close>: from the first opening brace to the last closing
  brace after it.
\<close>

definition jsonMatch :: "string \<Rightarrow> string option" where
  "jsonMatch response =
     (case dropWhile (\<lambda>c. c \<noteq> CHR ''{'') response of
        [] \<Rightarrow> None
      | brace # rest \<Rightarrow>
          if CHR ''}'' \<in> set rest
          then Some (brace # rev (dropWhile (\<lambda>c. c \<noteq> CHR ''}'') (rev rest)))
          else None)"

subsection \<open>The line scan\<close>

text \<open>
  \<open>\s*(.+)\<close> at the start of a text, giving the group: the white space is taken
  greedily and given back one character at a time until a character that is not a line
  terminator follows; the group then runs to the next line terminator.
\<close>

fun spacesThenRest :: "string \<Rightarrow> string option" where
  "spacesThenRest [] = None"
| "spacesThenRest (c # cs) =
     (if isWhitespace c then
        (case spacesThenRest cs of
           Some g \<Rightarrow> Some g
         | None \<Rightarrow>
             if isLineTerminator c then None
             else Some (takeWhile (\<lambda>x. \<not> isLineTerminator x) (c # cs)))
      else Some (takeWhile (\<lambda>x. \<not> isLineTerminator x) (c # cs)))"

text \<open>
  The class \<open>[\<bullet>\-\d+\.]\<close> is a set of single characters: the hyphen, the digits, the
  plus sign and the full stop (and the bullet, outside the range of these texts).
\<close>

definition inListMarkerClass :: "char \<Rightarrow> bool" where
  "inListMarkerClass c \<longleftrightarrow> c = CHR ''-'' \<or> isDigit c \<or> c = CHR ''+'' \<or> c = CHR ''.''"

text \<open>
  \<open>line.match(/[\<bullet>\-\d+\.]\s*(.+)/)\<close>, giving the group of the leftmost match.
\<close>

fun listItemMatch :: "string \<Rightarrow> string option" where
  "listItemMatch [] = None"
| "listItemMatch (c # cs) =
     (if inListMarkerClass c then
        (case spacesThenRest cs of
           Some g \<Rightarrow> Some g
         | None \<Rightarrow> listItemMatch cs)
      else listItemMatch cs)"

text \<open>\<open>line.match(/^\d+\./)\<close>, as a test, and the text after the match.\<close>

definition afterNumberDot :: "string \<Rightarrow> string option" where
  "afterNumberDot line =
     (if takeWhile isDigit line \<noteq> [] \<and> startsWith (dropWhile isDigit line) ''.''
      then Some (tl (dropWhile isDigit line)) else None)"

definition numberedLine :: "string \<Rightarrow> bool" where
  "numberedLine line \<longleftrightarrow> afterNumberDot line \<noteq> None"

fun extractList_loop :: "string \<Rightarrow> string list \<Rightarrow> string list \<Rightarrow> bool \<Rightarrow> string list" where
  "extractList_loop listName [] items inSection = items"
| "extractList_loop listName (line # lines) items inSection =
     (if includes_str (toLowerCase line) (toLowerCase listName)
      then extractList_loop listName lines items True
      else if inSection then
        (case listItemMatch line of
           Some g \<Rightarrow> extractList_loop listName lines (items @ [trim g]) inSection
         | None \<Rightarrow>
             if trim line = [] \<or> numberedLine line
             then extractList_loop listName lines items False
             else extractList_loop listName lines items inSection)
      else extractList_loop listName lines items inSection)"

definition extractListFromText :: "string \<Rightarrow> string \<Rightarrow> string list" where
  "extractListFromText text listName =
     extractList_loop listName (splitChar CHR 0x0A text) [] False"

text \<open>\<open>line.match(/^\d+\.\s*(.+)/)\<close>, giving the group.\<close>

definition questionMatch :: "string \<Rightarrow> string option" where
  "questionMatch line =
     (case afterNumberDot line of
        None \<Rightarrow> None
      | Some rest \<Rightarrow> spacesThenRest rest)"

fun parseQuestions_loop :: "string list \<Rightarrow> string list \<Rightarrow> string list" where
  "parseQuestions_loop [] questions = questions"
| "parseQuestions_loop (line # lines) questions =
     (case questionMatch line of
        Some g \<Rightarrow> parseQuestions_loop lines (questions @ [trim g])
      | None \<Rightarrow> parseQuestions_loop lines questions)"

definition parseQuestions :: "string \<Rightarrow> string list" where
  "parseQuestions response = parseQuestions_loop (splitChar CHR 0x0A response) []"

subsection \<open>The two structured parsers\<close>

text \<open>
  The declared types of the result fields are not checked at run time: a field holds
  whatever value the parsed object had under its name.
\<close>

record KeywordExtractionResult =
  keywords_field :: json
  entities :: json
  topics :: json
  concepts :: json

record InsightAnalysisResult =
  sentiment :: json
  topics :: json
  complexity :: json
  readabilityScore :: json
  keyInsights :: json
  recommendations :: json

definition emptyList :: json where
  "emptyList = JArray []"

definition stringList :: "string list \<Rightarrow> json" where
  "stringList items = JArray (map JString items)"

definition defaultKeywords :: KeywordExtractionResult where
  "defaultKeywords =
     \<lparr>keywords_field = emptyList, entities = emptyList,
      KeywordExtractionResult.topics = emptyList, concepts = emptyList\<rparr>"

definition defaultInsights :: InsightAnalysisResult where
  "defaultInsights =
     \<lparr>sentiment = JString ''neutral'',
      InsightAnalysisResult.topics = emptyList,
      complexity = JString ''medium'',
      readabilityScore = JNumber (Finite 50),
      keyInsights = emptyList,
      recommendations = emptyList\<rparr>"

text \<open>
  The body of the \<open>try\<close> block: \<open>Inl\<close> is a throw, \<open>Inr None\<close> is leaving the block
  without a \<open>return\<close>.
\<close>

definition parseKeywordResponse_try ::
  "json_parser \<Rightarrow> string \<Rightarrow> error + KeywordExtractionResult option" where
  "parseKeywordResponse_try JSON_parse response =
     (case jsonMatch response of
        None \<Rightarrow> Inr None
      | Some text \<Rightarrow>
          (case JSON_parse text of
             Inl e \<Rightarrow> Inl e
           | Inr parsed \<Rightarrow>
               (case propertyOr parsed ''keywords'' emptyList of Inl e \<Rightarrow> Inl e | Inr k \<Rightarrow>
               (case propertyOr parsed ''entities'' emptyList of Inl e \<Rightarrow> Inl e | Inr en \<Rightarrow>
               (case propertyOr parsed ''topics'' emptyList of Inl e \<Rightarrow> Inl e | Inr t \<Rightarrow>
               (case propertyOr parsed ''concepts'' emptyList of Inl e \<Rightarrow> Inl e | Inr c \<Rightarrow>
                  Inr (Some \<lparr>keywords_field = k, entities = en,
                             KeywordExtractionResult.topics = t, concepts = c\<rparr>)))))))"

definition parseKeywordResponse :: "json_parser \<Rightarrow> string \<Rightarrow> error + KeywordExtractionResult" where
  "parseKeywordResponse JSON_parse response =
     (case parseKeywordResponse_try JSON_parse response of
        Inr (Some result) \<Rightarrow> Inr result
      | _ \<Rightarrow>
          Inr \<lparr>keywords_field = stringList (extractListFromText response ''keywords''),
               entities = stringList (extractListFromText response ''entities''),
               KeywordExtractionResult.topics = stringList (extractListFromText response ''topics''),
               concepts = stringList (extractListFromText response ''concepts'')\<rparr>)"

definition parseInsightResponse_try ::
  "json_parser \<Rightarrow> string \<Rightarrow> error + InsightAnalysisResult option" where
  "parseInsightResponse_try JSON_parse response =
     (case jsonMatch response of
        None \<Rightarrow> Inr None
      | Some text \<Rightarrow>
          (case JSON_parse text of
             Inl e \<Rightarrow> Inl e
           | Inr parsed \<Rightarrow>
               (case propertyOr parsed ''sentiment'' (JString ''neutral'') of Inl e \<Rightarrow> Inl e | Inr s \<Rightarrow>
               (case propertyOr parsed ''topics'' emptyList of Inl e \<Rightarrow> Inl e | Inr t \<Rightarrow>
               (case propertyOr parsed ''complexity'' (JString ''medium'') of Inl e \<Rightarrow> Inl e | Inr c \<Rightarrow>
               (case propertyOr parsed ''readabilityScore'' (JNumber (Finite 50)) of Inl e \<Rightarrow> Inl e | Inr r \<Rightarrow>
               (case propertyOr parsed ''keyInsights'' emptyList of Inl e \<Rightarrow> Inl e | Inr ki \<Rightarrow>
               (case propertyOr parsed ''recommendations'' emptyList of Inl e \<Rightarrow> Inl e | Inr rc \<Rightarrow>
                  Inr (Some \<lparr>sentiment = s, InsightAnalysisResult.topics = t, complexity = c,
                             readabilityScore = r, keyInsights = ki,
                             recommendations = rc\<rparr>)))))))))"

definition parseInsightResponse :: "json_parser \<Rightarrow> string \<Rightarrow> error + InsightAnalysisResult" where
  "parseInsightResponse JSON_parse response =
     (case parseInsightResponse_try JSON_parse response of
        Inr (Some result) \<Rightarrow> Inr result
      | _ \<Rightarrow> Inr defaultInsights)"

section \<open>Configuration and the model provider (core/config.ts, core/models.ts)\<close>

record Settings =
  chunkSize :: int
  chunkOverlap :: int
  maxTokens :: int
  temperature :: rat
  vectorDimension :: int
  similarityThreshold :: rat
  maxResults :: int

record AppConfig =
  openai_apiKey :: string
  openai_model :: string
  openai_embeddingModel :: string
  groq_apiKey :: string
  groq_model :: string
  huggingface_apiKey :: string
  settings :: Settings

text \<open>The messages that \<open>validateConfig\<close> prints are left out; its result is kept.\<close>

definition validateConfig :: "AppConfig \<Rightarrow> bool" where
  "validateConfig config =
     (let hasOpenAI = (openai_apiKey config \<noteq> []);
          hasGroq = (groq_apiKey config \<noteq> []);
          hasHuggingFace = (huggingface_apiKey config \<noteq> [])
      in if \<not> hasOpenAI \<and> \<not> hasGroq \<and> \<not> hasHuggingFace then False else True)"

text \<open>
  A language model is its \<open>invoke\<close>: from the prompt to the text of the completion, or
  to the error the provider call throws (network, authentication, rate limit).
\<close>

type_synonym llm = "string \<Rightarrow> error + string"

definition getLLM :: "AppConfig \<Rightarrow> llm \<Rightarrow> llm \<Rightarrow> error + llm" where
  \<comment> \<open>\<open>ModelManager.getLLM\<close>, given the client of each provider\<close>
  "getLLM config chatGroq chatOpenAI =
     (if groq_apiKey config \<noteq> [] then Inr chatGroq
      else if openai_apiKey config \<noteq> [] then Inr chatOpenAI
      else Inl (JSError ''Error''
                  ''Either Groq or OpenAI API key is required for LLM operations''))"

definition invokeLLM :: "error + llm \<Rightarrow> string \<Rightarrow> error + string" where
  \<comment> \<open>\<open>const llm = this.modelManager.getLLM(); const response = await llm.invoke(prompt)\<close>\<close>
  "invokeLLM manager prompt =
     (case manager of
        Inl e \<Rightarrow> Inl e
      | Inr model \<Rightarrow> model prompt)"

section \<open>The insight analyzer's operations (analyzers/InsightAnalyzer.ts)\<close>

definition joinLines :: "string list \<Rightarrow> string" where
  \<comment> \<open>the lines of a template literal, each after a line break\<close>
  "joinLines ls = concat (map (\<lambda>l. CHR 0x0A # l) ls)"

definition keywordPrompt :: "Document \<Rightarrow> string" where
  \<open>keywordPrompt document =
     joinLines
       [''Analyze the following document and extract:'',
        ''1. Keywords (10-15 most important terms)'',
        ''2. Named entities (people, places, organizations)'',
        ''3. Main topics (5-7 high-level themes)'',
        ''4. Key concepts (important ideas or principles)'',
        [],
        ''Format your response as JSON with the following structure:'',
        ''{'',
        ''  "keywords": ["keyword1", "keyword2", ...],'',
        ''  "entities": ["entity1", "entity2", ...],'',
        ''  "topics": ["topic1", "topic2", ...],'',
        ''  "concepts": ["concept1", "concept2", ...]'',
        ''}'',
        [],
        ''Document content:'',
        take 2000 (Document.content document) @ ''...'']\<close>

definition insightPrompt :: "Document \<Rightarrow> string" where
  \<open>insightPrompt document =
     joinLines
       [''Perform a comprehensive analysis of the following document and provide insights on:'',
        [],
        ''1. Sentiment analysis (positive/negative/neutral)'',
        ''2. Main topics covered'',
        ''3. Complexity level (low/medium/high)'',
        ''4. Readability score (1-100, where 100 is most readable)'',
        ''5. Key insights (3-5 important takeaways)'',
        ''6. Recommendations (3-5 actionable suggestions based on the content)'',
        [],
        ''Format your response as JSON:'',
        ''{'',
        ''  "sentiment": "positive|negative|neutral",'',
        ''  "topics": ["topic1", "topic2", ...],'',
        ''  "complexity": "low|medium|high",'',
        ''  "readabilityScore": 75,'',
        ''  "keyInsights": ["insight1", "insight2", ...],'',
        ''  "recommendations": ["recommendation1", "recommendation2", ...]'',
        ''}'',
        [],
        ''Document content:'',
        take 2500 (Document.content document) @ ''...'']\<close>

definition questionPrompt :: "Document \<Rightarrow> string" where
  \<open>questionPrompt document =
     joinLines
       [''Based on the following document content, generate 5-10 thoughtful questions that would help someone understand and engage with the material. Include:'',
        ''- Comprehension questions'',
        ''- Analysis questions  '',
        ''- Application questions'',
        ''- Critical thinking questions'',
        [],
        ''Format as a simple list:'',
        ''1. Question 1'',
        ''2. Question 2'',
        ''...'',
        [],
        ''Document content:'',
        take 1500 (Document.content document) @ ''...'']\<close>

text \<open>
  Each operation runs the provider call and the parser inside one \<open>try\<close> block, and its
  \<open>catch\<close> returns a fixed result.
\<close>

definition extractKeywords ::
  "error + llm \<Rightarrow> json_parser \<Rightarrow> Document \<Rightarrow> error + KeywordExtractionResult" where
  "extractKeywords manager JSON_parse document =
     (case invokeLLM manager (keywordPrompt document) of
        Inl e \<Rightarrow> Inr defaultKeywords
      | Inr response \<Rightarrow>
          (case parseKeywordResponse JSON_parse response of
             Inl e \<Rightarrow> Inr defaultKeywords
           | Inr result \<Rightarrow> Inr result))"

definition analyzeInsights ::
  "error + llm \<Rightarrow> json_parser \<Rightarrow> Document \<Rightarrow> error + InsightAnalysisResult" where
  "analyzeInsights manager JSON_parse document =
     (case invokeLLM manager (insightPrompt document) of
        Inl e \<Rightarrow> Inr defaultInsights
      | Inr response \<Rightarrow>
          (case parseInsightResponse JSON_parse response of
             Inl e \<Rightarrow> Inr defaultInsights
           | Inr result \<Rightarrow> Inr result))"

definition generateQuestions :: "error + llm \<Rightarrow> Document \<Rightarrow> error + string list" where
  "generateQuestions manager document =
     (case invokeLLM manager (questionPrompt document) of
        Inl e \<Rightarrow> Inr []
      | Inr response \<Rightarrow> Inr (parseQuestions response))"

section \<open>The summary analyzer (analyzers/SummaryAnalyzer.ts)\<close>

datatype SummaryStyle = BulletPoints | Paragraph | Executive

record SummaryOptions =
  maxLength :: "nat option"
  style :: "SummaryStyle option"
  focus :: "string option"

record SummaryResult =
  summary :: string
  keyPoints :: "string list"
  wordCount :: nat
  confidence :: int

text \<open>The decimal numeral of a natural number, as a template literal prints it.\<close>

definition digitChar :: "nat \<Rightarrow> char" where
  "digitChar d = char_of (48 + d)"

function numberToString :: "nat \<Rightarrow> string" where
  "numberToString n =
     (if n < 10 then [digitChar n] else numberToString (n div 10) @ [digitChar (n mod 10)])"
  by pat_completeness auto
termination
  by (relation "measure (\<lambda>n. n)") auto

declare numberToString.simps [simp del]

fun styleInstructions :: "SummaryStyle \<Rightarrow> string" where
  "styleInstructions BulletPoints = ''Format the summary as clear bullet points''"
| "styleInstructions Paragraph = ''Write the summary in well-structured paragraphs''"
| "styleInstructions Executive = ''Write in executive summary style with clear headings''"

definition buildSummaryPrompt :: "string \<Rightarrow> nat \<Rightarrow> SummaryStyle \<Rightarrow> string \<Rightarrow> string" where
  "buildSummaryPrompt text maxLen sty foc =
     joinLines
       [''Please provide a comprehensive summary of the following document with these specifications:'',
        ''- Maximum length: '' @ numberToString maxLen @ '' words'',
        ''- Style: '' @ styleInstructions sty,
        ''- Focus on: '' @ foc,
        [],
        ''After the summary, provide:'',
        ''1. Key points (as a numbered list)'',
        ''2. Overall confidence level (1-10)'',
        [],
        ''Document content:'',
        take 3000 text,
        [],
        ''Summary:'']"

text \<open>
  \<open>line.match(/(\d+)/)\<close>: the first maximal run of digits of the line. \<open>parseInt\<close> of
  such a run is its decimal value; a run too long for a double is rounded by the source
  to a value that is still far above 10, so the clamped confidence is the same.
\<close>

definition firstDigits :: "string \<Rightarrow> string option" where
  "firstDigits line =
     (let run = takeWhile isDigit (dropWhile (\<lambda>c. \<not> isDigit c) line)
      in if run = [] then None else Some run)"

definition parseInt :: "string \<Rightarrow> int" where
  "parseInt digits = foldl (\<lambda>acc c. 10 * acc + (int (of_char c) - 48)) 0 digits"

datatype Section = SummarySection | KeyPointsSection

record SummaryState =
  st_summary :: string
  st_keyPoints :: "string list"
  st_confidence :: int
  st_currentSection :: Section

text \<open>
  \<open>line.replace(/^\d+\.\s*/, '').replace(/^[\<bullet>-]\s*/, '')\<close>: a leading number with
  its full stop goes, then a leading hyphen, each with the white space after it.
\<close>

definition stripNumber :: "string \<Rightarrow> string" where
  "stripNumber line =
     (case afterNumberDot line of
        None \<Rightarrow> line
      | Some rest \<Rightarrow> dropWhile isWhitespace rest)"

definition stripBullet :: "string \<Rightarrow> string" where
  "stripBullet line =
     (if startsWith line ''-'' then dropWhile isWhitespace (tl line) else line)"

definition summaryStep :: "SummaryState \<Rightarrow> string \<Rightarrow> SummaryState" where
  "summaryStep st line =
     (if includes_str (toLowerCase line) ''key points'' \<or> includes_str (toLowerCase line) ''main points''
      then st\<lparr>st_currentSection := KeyPointsSection\<rparr>
      else if includes_str (toLowerCase line) ''confidence''
      then (case firstDigits line of
              Some digits \<Rightarrow> st\<lparr>st_confidence := parseInt digits\<rparr>
            | None \<Rightarrow> st)
      else (case st_currentSection st of
              SummarySection \<Rightarrow> st\<lparr>st_summary := st_summary st @ line @ '' ''\<rparr>
            | KeyPointsSection \<Rightarrow>
                if numberedLine line \<or> startsWith line ''-''
                then st\<lparr>st_keyPoints := st_keyPoints st @ [stripBullet (stripNumber line)]\<rparr>
                else st))"

definition initialSummaryState :: SummaryState where
  "initialSummaryState =
     \<lparr>st_summary = [], st_keyPoints = [], st_confidence = 8, st_currentSection = SummarySection\<rparr>"

definition summaryLines :: "string \<Rightarrow> string list" where
  "summaryLines response = filter (\<lambda>line. trim line \<noteq> []) (splitChar CHR 0x0A response)"

definition parseSummaryResponse :: "string \<Rightarrow> SummaryResult" where
  "parseSummaryResponse response =
     (let st = foldl summaryStep initialSummaryState (summaryLines response)
      in \<lparr>summary = trim (st_summary st),
          keyPoints = st_keyPoints st,
          wordCount = length (splitChar CHR '' '' (st_summary st)),
          confidence = min 10 (max 1 (st_confidence st))\<rparr>)"

text \<open>
  The \<open>catch\<close> of the two operations below throws a new error that carries the text of
  the one caught.
\<close>

definition summaryPrompt :: "Document \<Rightarrow> SummaryOptions \<Rightarrow> string" where
  \<comment> \<open>the options with their defaults, handed to \<open>buildSummaryPrompt\<close>\<close>
  "summaryPrompt document options =
     (let maxLen = (case maxLength options of None \<Rightarrow> 500 | Some n \<Rightarrow> n);
          sty = (case style options of None \<Rightarrow> Paragraph | Some s \<Rightarrow> s);
          foc = (case focus options of
                   None \<Rightarrow> ''main concepts and important details'' | Some f \<Rightarrow> f)
      in buildSummaryPrompt (Document.content document) maxLen sty foc)"

definition summarizeDocument :: "error + llm \<Rightarrow> Document \<Rightarrow> SummaryOptions \<Rightarrow> error + SummaryResult" where
  "summarizeDocument manager document options =
     (case invokeLLM manager (summaryPrompt document options) of
        Inl e \<Rightarrow> Inl (JSError ''Error'' (''Failed to generate summary: '' @ errorToString e))
      | Inr response \<Rightarrow> Inr (parseSummaryResponse response))"

definition noOptions :: SummaryOptions where
  "noOptions = \<lparr>maxLength = None, style = None, focus = None\<rparr>"

definition abstractPrompt :: "Document \<Rightarrow> string" where
  "abstractPrompt document =
     joinLines
       [''Generate a concise academic abstract for the following document. The abstract should be 100-200 words and include:'',
        ''1. Purpose/objective'',
        ''2. Main findings or key points'',
        ''3. Conclusions or implications'',
        [],
        ''Document content:'',
        take 2000 (Document.content document) @ ''...'',
        [],
        ''Abstract:'']"

definition generateAbstract :: "error + llm \<Rightarrow> Document \<Rightarrow> error + string" where
  "generateAbstract manager document =
     (case invokeLLM manager (abstractPrompt document) of
        Inl e \<Rightarrow> Inl (JSError ''Error'' (''Failed to generate abstract: '' @ errorToString e))
      | Inr response \<Rightarrow> Inr (trim response))"

section \<open>Example inputs\<close>

definition sampleDocument :: Document where
  "sampleDocument =
     \<lparr>Document.id_field = ''doc'', content = ''the cat sat'',
      metadata = \<lparr>filename = ''cat.txt'', fileType = ''.txt'', size_field = 11, createdAt = 0\<rparr>\<rparr>"

definition rateLimited :: "error + llm" where
  \<comment> \<open>a provider whose every call fails\<close>
  "rateLimited = Inr (\<lambda>prompt. Inl (JSError ''Error'' ''429 rate limit exceeded''))"

definition noParser :: json_parser where
  \<comment> \<open>a parser that rejects every text\<close>
  "noParser text = Inl (JSError ''SyntaxError'' ''Unexpected token'')"

definition sampleConfig :: "int \<Rightarrow> int \<Rightarrow> AppConfig" where
  \<comment> \<open>a configuration with one API key and the given window size and overlap\<close>
  "sampleConfig w v =
     \<lparr>openai_apiKey = [], openai_model = ''gpt-4'',
      openai_embeddingModel = ''text-embedding-ada-002'',
      groq_apiKey = ''key'', groq_model = ''llama3-8b-8192'', huggingface_apiKey = [],
      settings = \<lparr>chunkSize = w, chunkOverlap = v, maxTokens = 500, temperature = 7 / 10,
                   vectorDimension = 1536, similarityThreshold = 8 / 10, maxResults = 5\<rparr>\<rparr>"

definition exampleChunks :: "DocumentChunk list" where
  "exampleChunks =
     [textChunk ''c0'' 0 ''the cat sat'', textChunk ''c1'' 1 ''the dog ran'',
      textChunk ''c2'' 2 ''birds fly'']"

definition keywordsResponse :: string where
  \<comment> \<open>a response without JSON: a heading and two numbered lines\<close>
  "keywordsResponse = ''Keywords: '' @ [CHR 0x0A] @ ''1. foo'' @ [CHR 0x0A] @ ''2. bar''"

definition jsonKeywords :: string where
  \<open>jsonKeywords = ''{"keywords":["a","b"]}''\<close>

definition keywordsParser :: json_parser where
  \<comment> \<open>\<open>JSON.parse\<close> on the one text of the example; every other text is rejected here\<close>
  "keywordsParser text =
     (if text = jsonKeywords
      then Inr (JObject [(''keywords'', JArray [JString ''a'', JString ''b''])])
      else Inl (JSError ''SyntaxError'' ''Unexpected token''))"

section \<open>Notions used in the statements\<close>

definition literalScore :: "string \<Rightarrow> DocumentChunk \<Rightarrow> nat" where
  \<comment> \<open>the sum, over the pieces of the lower-cased query between single spaces, of the
      literal matches of the piece in the lower-cased text of the chunk\<close>
  "literalScore query chunk =
     sum_list (map (\<lambda>word. literalMatchCount word (toLowerCase (DocumentChunk.content chunk)))
                   (splitChar CHR '' '' (toLowerCase query)))"

definition rankedChunks :: "string \<Rightarrow> DocumentChunk list \<Rightarrow> DocumentChunk list" where
  \<comment> \<open>the chunks of positive literal score, stably sorted by falling score\<close>
  "rankedChunks query chunks =
     sort_key (\<lambda>chunk. - int (literalScore query chunk))
       (filter (\<lambda>chunk. 0 < literalScore query chunk) chunks)"

definition forgetId :: "DocumentChunk \<Rightarrow> DocumentChunk" where
  \<comment> \<open>a chunk without its identifier: what remains is its document, text, index and offsets\<close>
  "forgetId chunk = chunk\<lparr>DocumentChunk.id_field := []\<rparr>"

section \<open>Properties of the chunker\<close>

subsection \<open>When the loop returns\<close>

text \<open>
  The loop sets the next start to the end of the window minus the overlap. The end of a
  window is never beyond the length of the text, so with a positive overlap a start below
  the length is followed by another one, and the loop cannot leave.
\<close>

lemma createChunks_loop_returns_only_if:
  assumes "createChunks_loop u d t w v cs s i = Some y"
  shows "\<not> (0 < v \<and> s < int (length t))"
proof (rule createChunks_loop.raw_induct
    [where P = "\<lambda>u d t w v cs s i y. \<not> (0 < v \<and> s < int (length t))", OF _ assms])
  fix f u d t w v cs s i y
  assume IH: "\<And>u d t w v cs s i y.
      f u d t w v cs s i = Some y \<Longrightarrow> \<not> (0 < v \<and> s < int (length t))"
    and step: "(if s < int (length t) then
        (let endIndex = min (s + w) (int (length t));
             chunkContent = slice t s endIndex;
             chunk = \<lparr>DocumentChunk.id_field = u (length cs),
                      documentId = Document.id_field d,
                      content = chunkContent,
                      index = i,
                      metadata = \<lparr>startChar = s, endChar = endIndex\<rparr>\<rparr>
         in f u d t w v (cs @ [chunk]) (endIndex - v) (i + 1))
      else Some cs) = Some y"
  show "\<not> (0 < v \<and> s < int (length t))"
  proof
    assume a: "0 < v \<and> s < int (length t)"
    with step obtain cs' where
      "f u d t w v cs' (min (s + w) (int (length t)) - v) (i + 1) = Some y"
      by (simp add: Let_def)
    from IH[OF this] a show False
      by (auto simp: min_def split: if_splits)
  qed
qed

lemma createChunks_loop_diverges:
  "0 < v \<Longrightarrow> s < int (length t) \<Longrightarrow> createChunks_loop u d t w v cs s i = None"
  using createChunks_loop_returns_only_if[of u d t w v cs s i]
  by (cases "createChunks_loop u d t w v cs s i") auto

lemma createChunks_diverges:
  "0 < v \<Longrightarrow> t \<noteq> [] \<Longrightarrow> createChunks u d t w v = None"
  unfolding createChunks_def by (rule createChunks_loop_diverges) auto

lemma createChunks_empty: "createChunks u d [] w v = Some []"
  unfolding createChunks_def by (subst createChunks_loop.simps) simp

text \<open>Without overlap every round moves the start forward by the window, and the loop ends.\<close>

lemma createChunks_loop_terminates:
  assumes "0 < w"
  shows "\<exists>r. createChunks_loop u d t w 0 cs s i = Some r"
proof (induction "nat (int (length t) - s)" arbitrary: s cs i rule: less_induct)
  case less
  show ?case
  proof (cases "s < int (length t)")
    case False
    then show ?thesis by (subst createChunks_loop.simps) simp
  next
    case True
    let ?e = "min (s + w) (int (length t))"
    have "nat (int (length t) - ?e) < nat (int (length t) - s)"
      using True assms by auto
    from less[OF this] show ?thesis
      using True by (subst createChunks_loop.simps) (simp add: Let_def)
  qed
qed

lemma createChunks_no_overlap_returns:
  "0 < w \<Longrightarrow> \<exists>r. createChunks u d t w 0 = Some r"
  unfolding createChunks_def by (rule createChunks_loop_terminates)

lemma createChunks_single:
  assumes "t \<noteq> []" "int (length t) \<le> w"
  shows "createChunks u d t w 0 =
    Some [\<lparr>DocumentChunk.id_field = u 0, documentId = Document.id_field d, content = t,
           index = 0, metadata = \<lparr>startChar = 0, endChar = int (length t)\<rparr>\<rparr>]"
proof -
  let ?c = "\<lparr>DocumentChunk.id_field = u 0, documentId = Document.id_field d, content = t,
           index = 0, metadata = \<lparr>startChar = 0, endChar = int (length t)\<rparr>\<rparr>"
  have m: "min w (int (length t)) = int (length t)" using assms by simp
  have "createChunks_loop u d t w 0 [] 0 0 = createChunks_loop u d t w 0 [?c] (int (length t)) 1"
    using assms by (subst createChunks_loop.simps) (simp add: Let_def slice_def m)
  also have "\<dots> = Some [?c]"
    by (subst createChunks_loop.simps) simp
  finally show ?thesis by (simp add: createChunks_def)
qed

subsection \<open>Two runs with different identifiers\<close>

lemma createChunks_loop_rel:
  assumes "createChunks_loop u d t w v cs s i = Some y"
  shows "\<forall>cs'. map forgetId cs' = map forgetId cs \<longrightarrow>
           (\<exists>y'. createChunks_loop u' d t w v cs' s i = Some y' \<and>
                 map forgetId y' = map forgetId y)"
proof (rule createChunks_loop.raw_induct
    [where P = "\<lambda>u d t w v cs s i y. \<forall>cs'. map forgetId cs' = map forgetId cs \<longrightarrow>
           (\<exists>y'. createChunks_loop u' d t w v cs' s i = Some y' \<and>
                 map forgetId y' = map forgetId y)", OF _ assms])
  fix f u d t w v cs s i y
  assume IH: "\<And>u d t w v cs s i y. f u d t w v cs s i = Some y \<Longrightarrow>
           \<forall>cs'. map forgetId cs' = map forgetId cs \<longrightarrow>
           (\<exists>y'. createChunks_loop u' d t w v cs' s i = Some y' \<and>
                 map forgetId y' = map forgetId y)"
    and step: "(if s < int (length t) then
        (let endIndex = min (s + w) (int (length t));
             chunkContent = slice t s endIndex;
             chunk = \<lparr>DocumentChunk.id_field = u (length cs),
                      documentId = Document.id_field d,
                      content = chunkContent,
                      index = i,
                      metadata = \<lparr>startChar = s, endChar = endIndex\<rparr>\<rparr>
         in f u d t w v (cs @ [chunk]) (endIndex - v) (i + 1))
      else Some cs) = Some y"
  show "\<forall>cs'. map forgetId cs' = map forgetId cs \<longrightarrow>
           (\<exists>y'. createChunks_loop u' d t w v cs' s i = Some y' \<and>
                 map forgetId y' = map forgetId y)"
  proof (intro allI impI)
    fix cs' assume eq: "map forgetId cs' = map forgetId cs"
    show "\<exists>y'. createChunks_loop u' d t w v cs' s i = Some y' \<and>
               map forgetId y' = map forgetId y"
    proof (cases "s < int (length t)")
      case False
      with step have "y = cs" by simp
      with False eq show ?thesis by (subst createChunks_loop.simps) simp
    next
      case True
      let ?e = "min (s + w) (int (length t))"
      let ?c = "\<lambda>ident. \<lparr>DocumentChunk.id_field = ident, documentId = Document.id_field d,
                      content = slice t s ?e, index = i,
                      metadata = \<lparr>startChar = s, endChar = ?e\<rparr>\<rparr>"
      from step True have "f u d t w v (cs @ [?c (u (length cs))]) (?e - v) (i + 1) = Some y"
        by (simp add: Let_def)
      from IH[OF this] eq
      have "\<exists>y'. createChunks_loop u' d t w v (cs' @ [?c (u' (length cs'))]) (?e - v) (i + 1)
                   = Some y' \<and> map forgetId y' = map forgetId y"
        by (simp add: forgetId_def)
      then show ?thesis using True
        by (subst createChunks_loop.simps) (simp add: Let_def)
    qed
  qed
qed

lemma createChunks_rel:
  assumes "createChunks u d t w v = Some y"
  shows "\<exists>y'. createChunks u' d t w v = Some y' \<and> map forgetId y' = map forgetId y"
  using createChunks_loop_rel[OF assms[unfolded createChunks_def], of u']
  by (simp add: createChunks_def)

subsection \<open>The claims about the chunker\<close>

text \<open>
  C1. The claim: for every text, window size \<open>W > 0\<close> and overlap \<open>0 \<le> O < W\<close> the chunking
  terminates. The code does not: called with its own default window 1000 and overlap 200
  on the text \<open>hello\<close>, \<open>createChunks\<close> never returns. After the first chunk the start is
  \<open>5 - 200\<close>, the window from there ends at 5 again, and every later round repeats this one.
\<close>

theorem createChunks_defaults_never_return:
  "createChunks uuidv4 document ''hello'' 1000 200 = None"
  by (rule createChunks_diverges) simp_all

text \<open>
  C2. The claim: a text no longer than the window gives exactly one chunk, for every
  overlap \<open>0 \<le> O < W\<close>. With the overlap 2 and the window 5 the call on the text \<open>abc\<close>
  does not return at all: the chunk that spans the text is produced again and again.
  (With the overlap 0 the claim holds, see \<open>createChunks_single\<close>.)
\<close>

theorem createChunks_short_text_never_returns:
  "createChunks uuidv4 document ''abc'' 5 2 = None"
  by (rule createChunks_diverges) simp_all

text \<open>
  C6, as the claim states it: an overlap that is not below the window size is rejected
  before the chunker runs. It is not: the configuration with window 2 and overlap 2 passes
  \<open>validateConfig\<close>, and the chunker called with these settings runs and never returns.
\<close>

theorem overlap_not_below_window_is_not_rejected:
  "validateConfig (sampleConfig 2 2) \<and>
   createChunks (\<lambda>k. ''id'') sampleDocument ''abc''
     (chunkSize (settings (sampleConfig 2 2))) (chunkOverlap (settings (sampleConfig 2 2)))
     = None"
proof
  show "validateConfig (sampleConfig 2 2)"
    by (simp add: validateConfig_def sampleConfig_def)
  show "createChunks (\<lambda>k. ''id'') sampleDocument ''abc''
     (chunkSize (settings (sampleConfig 2 2))) (chunkOverlap (settings (sampleConfig 2 2)))
     = None"
    by (rule createChunks_diverges) (simp_all add: sampleConfig_def)
qed

text \<open>
  C6, amended: nothing checks the overlap against the window size. The verdict of
  \<open>validateConfig\<close> does not depend on the settings, the window size and the overlap among
  them, and \<open>createChunks\<close> has no rejecting outcome: on the empty text it returns the
  empty chunk list for every window size and overlap.
\<close>

theorem chunker_settings_are_not_validated:
  "validateConfig (config\<lparr>settings := s\<rparr>) = validateConfig config \<and>
   createChunks uuidv4 document [] w v = Some []"
  by (simp add: validateConfig_def createChunks_empty)

text \<open>
  C7, as the claim states it: two calls on the same input return the same chunks,
  identifiers included. The identifier of a chunk is a fresh \<open>uuidv4()\<close>, so two calls
  on the text \<open>abc\<close> that draw different values return different chunk lists.
\<close>

theorem createChunks_identifiers_differ:
  "createChunks (\<lambda>k. ''id-a'') sampleDocument ''abc'' 5 0
     \<noteq> createChunks (\<lambda>k. ''id-b'') sampleDocument ''abc'' 5 0"
  by (simp add: createChunks_single)

text \<open>
  C7, amended: chunking is deterministic up to the identifiers. For every text, window
  size and overlap, two calls, whatever identifiers they draw, either both fail to return
  or return chunk lists that agree in everything but the identifiers: the document, the
  texts, the indices and the start and end offsets.
\<close>

theorem createChunks_deterministic_up_to_identifiers:
  "map_option (map forgetId) (createChunks u1 d t w v)
     = map_option (map forgetId) (createChunks u2 d t w v)"
proof (cases "createChunks u1 d t w v")
  case None
  show ?thesis
  proof (cases "createChunks u2 d t w v")
    case None2: None
    with None show ?thesis by simp
  next
    case (Some y)
    from createChunks_rel[OF Some, of u1] None show ?thesis by simp
  qed
next
  case (Some y)
  from createChunks_rel[OF Some, of u2] show ?thesis using Some by auto
qed

section \<open>Properties of the insight heuristics\<close>

lemma whitespaceTokens_dropWhile:
  "whitespaceTokens (dropWhile isWhitespace s) = whitespaceTokens s"
  by (subst whitespaceTokens.simps, subst (2) whitespaceTokens.simps) simp

lemma splitWhitespace_shape:
  "splitWhitespace s =
     takeWhile (\<lambda>c. \<not> isWhitespace c) s
     # (case dropWhile (\<lambda>c. \<not> isWhitespace c) s of
          [] \<Rightarrow> []
        | x # xs \<Rightarrow> splitWhitespace (dropWhile isWhitespace xs))"
  by (induction s) auto

text \<open>
  The pieces that \<open>split(/\s+/)\<close> leaves, without the empty ones at the two ends, are the
  maximal runs of characters that are not white space.
\<close>

lemma nonempty_pieces_are_tokens:
  "filter (\<lambda>word. length word > 0) (splitWhitespace s) = whitespaceTokens s"
proof (induction "length s" arbitrary: s rule: less_induct)
  case less
  show ?case
  proof (cases s)
    case Nil
    then show ?thesis by (subst whitespaceTokens.simps) simp
  next
    case (Cons c cs)
    show ?thesis
    proof (cases "isWhitespace c")
      case True
      have "length (dropWhile isWhitespace cs) < length s"
        using Cons by (simp add: less_Suc_eq_le length_dropWhile_le)
      from less[OF this]
      have "filter (\<lambda>word. length word > 0) (splitWhitespace s)
              = whitespaceTokens (dropWhile isWhitespace cs)"
        using Cons True by simp
      also have "\<dots> = whitespaceTokens (dropWhile isWhitespace s)"
        using Cons True by simp
      finally show ?thesis by (simp add: whitespaceTokens_dropWhile)
    next
      case False
      let ?rest = "dropWhile (\<lambda>c. \<not> isWhitespace c) s"
      have tok: "whitespaceTokens s =
                   takeWhile (\<lambda>c. \<not> isWhitespace c) s # whitespaceTokens ?rest"
        using Cons False by (subst whitespaceTokens.simps) simp
      have tail: "whitespaceTokens ?rest =
          filter (\<lambda>word. length word > 0)
            (case ?rest of [] \<Rightarrow> [] | x # xs \<Rightarrow> splitWhitespace (dropWhile isWhitespace xs))"
      proof (cases ?rest)
        case Nil
        have "whitespaceTokens [] = []" by (subst whitespaceTokens.simps) simp
        then show ?thesis by (simp only: Nil list.simps filter.simps)
      next
        case (Cons x xs)
        have "isWhitespace x"
          using Cons hd_dropWhile[of "\<lambda>c. \<not> isWhitespace c" s] by auto
        then have d: "dropWhile isWhitespace ?rest = dropWhile isWhitespace xs"
          using Cons by simp
        have "length xs < length s"
          using Cons length_dropWhile_le[of "\<lambda>c. \<not> isWhitespace c" s] by simp
        then have "length (dropWhile isWhitespace xs) < length s"
          using length_dropWhile_le[of isWhitespace xs] by simp
        from less[OF this] have
          "filter (\<lambda>word. length word > 0) (splitWhitespace (dropWhile isWhitespace xs))
             = whitespaceTokens (dropWhile isWhitespace xs)" .
        also have "\<dots> = whitespaceTokens ?rest"
          using whitespaceTokens_dropWhile[of ?rest] d by simp
        finally show ?thesis using Cons by simp
      qed
      have "takeWhile (\<lambda>c. \<not> isWhitespace c) s \<noteq> []"
        using Cons False by simp
      then show ?thesis
        by (subst splitWhitespace_shape) (simp add: tok tail)
    qed
  qed
qed

text \<open>
  C9. For every text, \<open>generateInsights\<close> returns as word count the number of tokens of
  the text, its maximal runs of characters that are not white space, and as reading time
  that count divided by 200 and rounded up; on the empty text both are 0. The function
  has no failing path.
\<close>

theorem generateInsights_counts:
  "Insights.wordCount (generateInsights text) = length (whitespaceTokens text) \<and>
   estimatedReadingTime (generateInsights text)
     = \<lceil>real (length (whitespaceTokens text)) / 200\<rceil> \<and>
   Insights.wordCount (generateInsights []) = 0 \<and>
   estimatedReadingTime (generateInsights []) = 0"
proof -
  have "Insights.wordCount (generateInsights []) = 0"
    "estimatedReadingTime (generateInsights []) = 0"
    by (simp_all add: generateInsights_def)
  then show ?thesis
    by (simp add: generateInsights_def Let_def nonempty_pieces_are_tokens[simplified])
qed

section \<open>Properties of the summary parser\<close>

lemma summaryStep_keeps_confidence:
  "\<not> includes_str (toLowerCase line) ''confidence'' \<Longrightarrow>
     st_confidence (summaryStep st line) = st_confidence st"
  by (simp add: summaryStep_def split: Section.splits)

lemma foldl_summaryStep_keeps_confidence:
  "\<forall>line \<in> set ls. \<not> includes_str (toLowerCase line) ''confidence'' \<Longrightarrow>
     st_confidence (foldl summaryStep st ls) = st_confidence st"
  by (induction ls arbitrary: st) (simp_all add: summaryStep_keeps_confidence)

text \<open>
  C10. For every response, the confidence of the parsed summary is an integer from 1 to
  10: it is the value the scan ends with, clamped to that range, and when no line of the
  response mentions confidence it is the default 8.
\<close>

theorem parseSummaryResponse_confidence_range:
  "1 \<le> confidence (parseSummaryResponse response) \<and>
   confidence (parseSummaryResponse response) \<le> 10 \<and>
   confidence (parseSummaryResponse response) =
     min 10 (max 1 (st_confidence
        (foldl summaryStep initialSummaryState (summaryLines response)))) \<and>
   ((\<forall>line \<in> set (splitChar CHR 0x0A response).
        \<not> includes_str (toLowerCase line) ''confidence'')
      \<longrightarrow> confidence (parseSummaryResponse response) = 8)"
proof -
  have "(\<forall>line \<in> set (splitChar CHR 0x0A response).
        \<not> includes_str (toLowerCase line) ''confidence'')
      \<longrightarrow> st_confidence (foldl summaryStep initialSummaryState (summaryLines response)) = 8"
    using foldl_summaryStep_keeps_confidence[of "summaryLines response" initialSummaryState]
    by (simp add: summaryLines_def initialSummaryState_def)
  then show ?thesis
    by (simp add: parseSummaryResponse_def Let_def)
qed

text \<open>
  A response without a confidence line gives 8; a stated 42 is cut down to 10 and a
  stated 0 is raised to 1.
\<close>

theorem parseSummaryResponse_confidence_witness:
  "confidence (parseSummaryResponse ''A short summary.'') = 8 \<and>
   confidence (parseSummaryResponse ''Confidence: 42/10'') = 10 \<and>
   confidence (parseSummaryResponse ''Confidence: 0'') = 1"
proof -
  have h: "\<forall>line \<in> set (splitChar CHR 0x0A ''A short summary.'').
        \<not> includes_str (toLowerCase line) ''confidence''"
    by (simp add: toLowerCase_def toLowerChar_def)
  have "confidence (parseSummaryResponse ''A short summary.'') = 8"
    using h parseSummaryResponse_confidence_range[of "''A short summary.''"] by blast
  moreover have "confidence (parseSummaryResponse ''Confidence: 42/10'') = 10"
    by code_simp
  moreover have "confidence (parseSummaryResponse ''Confidence: 0'') = 1"
    by code_simp
  ultimately show ?thesis by simp
qed

section \<open>Properties of the response parsers\<close>

text \<open>
  C5. The claim: on a response without JSON that consists of the line \<open>Keywords: \<close> and
  the lines \<open>1. foo\<close> and \<open>2. bar\<close>, the fallback scan returns \<open>foo\<close> and \<open>bar\<close>. The code
  returns \<open>. foo\<close> and \<open>. bar\<close>: its pattern starts with a character class, which takes
  one character, so of the marker \<open>1.\<close> only the digit is dropped and the group begins at
  the full stop. This holds whatever \<open>JSON.parse\<close> does, since the response has no brace.
\<close>

theorem fallback_keeps_the_full_stop:
  "parseKeywordResponse JSON_parse keywordsResponse =
     Inr \<lparr>keywords_field = stringList [''. foo'', ''. bar''], entities = emptyList,
          KeywordExtractionResult.topics = emptyList, concepts = emptyList\<rparr>"
proof -
  have k: "extractListFromText keywordsResponse ''keywords'' = [''. foo'', ''. bar'']"
    by code_simp
  have e: "extractListFromText keywordsResponse ''entities'' = []"
    by code_simp
  have t: "extractListFromText keywordsResponse ''topics'' = []"
    by code_simp
  have c: "extractListFromText keywordsResponse ''concepts'' = []"
    by code_simp
  have j: "jsonMatch keywordsResponse = None"
    by code_simp
  show ?thesis
    by (simp add: parseKeywordResponse_def parseKeywordResponse_try_def j k e t c
        stringList_def emptyList_def)
qed

lemma parseKeywordResponse_total: "\<exists>r. parseKeywordResponse P s = Inr r"
  by (simp add: parseKeywordResponse_def split: sum.splits option.splits)

lemma parseInsightResponse_total: "\<exists>r. parseInsightResponse P s = Inr r"
  by (simp add: parseInsightResponse_def split: sum.splits option.splits)

lemma propertyOr_object:
  "propertyOr (JObject members) name d = Inr (orElse (map_of members name) d)"
  by (simp add: propertyOr_def)

lemma parseKeywordResponse_object:
  assumes "jsonMatch s = Some text" "P text = Inr (JObject members)"
  shows "parseKeywordResponse P s =
     Inr \<lparr>keywords_field = orElse (map_of members ''keywords'') emptyList,
          entities = orElse (map_of members ''entities'') emptyList,
          KeywordExtractionResult.topics = orElse (map_of members ''topics'') emptyList,
          concepts = orElse (map_of members ''concepts'') emptyList\<rparr>"
  using assms
  by (simp add: parseKeywordResponse_def parseKeywordResponse_try_def propertyOr_object)

lemma parseInsightResponse_object:
  assumes "jsonMatch s = Some text" "P text = Inr (JObject members)"
  shows "parseInsightResponse P s =
     Inr \<lparr>sentiment = orElse (map_of members ''sentiment'') (JString ''neutral''),
          InsightAnalysisResult.topics = orElse (map_of members ''topics'') emptyList,
          complexity = orElse (map_of members ''complexity'') (JString ''medium''),
          readabilityScore = orElse (map_of members ''readabilityScore'') (JNumber (Finite 50)),
          keyInsights = orElse (map_of members ''keyInsights'') emptyList,
          recommendations = orElse (map_of members ''recommendations'') emptyList\<rparr>"
  using assms
  by (simp add: parseInsightResponse_def parseInsightResponse_try_def propertyOr_object)

text \<open>
  C8. For every response and every behaviour of \<open>JSON.parse\<close>, the two parsers return a
  result and throw nothing; and when the text between the braces parses to an object,
  every field the object lacks has its default: the empty list, \<open>neutral\<close>, \<open>medium\<close>,
  and 50 for the readability score.
\<close>

theorem response_parsers_never_throw:
  "(\<exists>r. parseKeywordResponse P s = Inr r) \<and>
   (\<exists>r. parseInsightResponse P s = Inr r) \<and>
   (jsonMatch s = Some text \<and> P text = Inr (JObject members) \<longrightarrow>
      (\<exists>r. parseKeywordResponse P s = Inr r \<and>
         (map_of members ''keywords'' = None \<longrightarrow> keywords_field r = JArray []) \<and>
         (map_of members ''entities'' = None \<longrightarrow> entities r = JArray []) \<and>
         (map_of members ''topics'' = None \<longrightarrow> KeywordExtractionResult.topics r = JArray []) \<and>
         (map_of members ''concepts'' = None \<longrightarrow> concepts r = JArray [])) \<and>
      (\<exists>r. parseInsightResponse P s = Inr r \<and>
         (map_of members ''sentiment'' = None \<longrightarrow> sentiment r = JString ''neutral'') \<and>
         (map_of members ''topics'' = None \<longrightarrow> InsightAnalysisResult.topics r = JArray []) \<and>
         (map_of members ''complexity'' = None \<longrightarrow> complexity r = JString ''medium'') \<and>
         (map_of members ''readabilityScore'' = None \<longrightarrow>
            readabilityScore r = JNumber (Finite 50)) \<and>
         (map_of members ''keyInsights'' = None \<longrightarrow> keyInsights r = JArray []) \<and>
         (map_of members ''recommendations'' = None \<longrightarrow> recommendations r = JArray [])))"
proof (intro conjI impI)
  show "\<exists>r. parseKeywordResponse P s = Inr r" by (rule parseKeywordResponse_total)
  show "\<exists>r. parseInsightResponse P s = Inr r" by (rule parseInsightResponse_total)
next
  assume a: "jsonMatch s = Some text \<and> P text = Inr (JObject members)"
  then show "\<exists>r. parseKeywordResponse P s = Inr r \<and>
         (map_of members ''keywords'' = None \<longrightarrow> keywords_field r = JArray []) \<and>
         (map_of members ''entities'' = None \<longrightarrow> entities r = JArray []) \<and>
         (map_of members ''topics'' = None \<longrightarrow> KeywordExtractionResult.topics r = JArray []) \<and>
         (map_of members ''concepts'' = None \<longrightarrow> concepts r = JArray [])"
    by (simp add: parseKeywordResponse_object emptyList_def)
next
  assume a: "jsonMatch s = Some text \<and> P text = Inr (JObject members)"
  then show "\<exists>r. parseInsightResponse P s = Inr r \<and>
         (map_of members ''sentiment'' = None \<longrightarrow> sentiment r = JString ''neutral'') \<and>
         (map_of members ''topics'' = None \<longrightarrow> InsightAnalysisResult.topics r = JArray []) \<and>
         (map_of members ''complexity'' = None \<longrightarrow> complexity r = JString ''medium'') \<and>
         (map_of members ''readabilityScore'' = None \<longrightarrow>
            readabilityScore r = JNumber (Finite 50)) \<and>
         (map_of members ''keyInsights'' = None \<longrightarrow> keyInsights r = JArray []) \<and>
         (map_of members ''recommendations'' = None \<longrightarrow> recommendations r = JArray [])"
    by (simp add: parseInsightResponse_object emptyList_def)
qed

text \<open>
  The response \<open>{"keywords":["a","b"]}\<close>: the keywords are \<open>a\<close> and \<open>b\<close>, and every other
  field of both results is at its default.
\<close>

theorem response_parsers_witness:
  "parseKeywordResponse keywordsParser jsonKeywords =
     Inr \<lparr>keywords_field = JArray [JString ''a'', JString ''b''], entities = JArray [],
          KeywordExtractionResult.topics = JArray [], concepts = JArray []\<rparr> \<and>
   (\<exists>r. parseInsightResponse keywordsParser jsonKeywords = Inr r \<and>
        sentiment r = JString ''neutral'' \<and> InsightAnalysisResult.topics r = JArray [] \<and>
        complexity r = JString ''medium'' \<and> readabilityScore r = JNumber (Finite 50) \<and>
        keyInsights r = JArray [] \<and> recommendations r = JArray [])"
proof -
  have m: "jsonMatch jsonKeywords = Some jsonKeywords" by code_simp
  have p: "keywordsParser jsonKeywords =
             Inr (JObject [(''keywords'', JArray [JString ''a'', JString ''b''])])"
    by (simp add: keywordsParser_def)
  have k: "parseKeywordResponse keywordsParser jsonKeywords =
     Inr \<lparr>keywords_field = JArray [JString ''a'', JString ''b''], entities = JArray [],
          KeywordExtractionResult.topics = JArray [], concepts = JArray []\<rparr>"
    by (simp add: parseKeywordResponse_object[where P = keywordsParser, OF m p] emptyList_def)
  from response_parsers_never_throw[of keywordsParser jsonKeywords jsonKeywords
      "[(''keywords'', JArray [JString ''a'', JString ''b''])]"] m p
  have "\<exists>r. parseInsightResponse keywordsParser jsonKeywords = Inr r \<and>
        sentiment r = JString ''neutral'' \<and> InsightAnalysisResult.topics r = JArray [] \<and>
        complexity r = JString ''medium'' \<and> readabilityScore r = JNumber (Finite 50) \<and>
        keyInsights r = JArray [] \<and> recommendations r = JArray []"
    by simp
  with k show ?thesis by simp
qed

section \<open>Properties of the provider-calling operations\<close>

text \<open>
  C4, as the claim states it: every operation that calls the provider catches a provider
  error and returns a default result. \<open>summarizeDocument\<close> does not: with a provider that
  answers every call with a rate-limit error it throws a new error to its caller.
\<close>

theorem summarizeDocument_rethrows:
  "summarizeDocument rateLimited sampleDocument noOptions =
     Inl (JSError ''Error'' ''Failed to generate summary: Error: 429 rate limit exceeded'')"
  by (simp add: summarizeDocument_def invokeLLM_def rateLimited_def)

text \<open>
  C4, amended: when the provider call of an operation fails, the three operations of the
  insight analyzer catch the error and return their default result (\<open>extractKeywords\<close>
  four empty lists, \<open>analyzeInsights\<close> neutral, medium, 50 and empty lists,
  \<open>generateQuestions\<close> the empty list); the two operations of the summary analyzer,
  \<open>summarizeDocument\<close> and \<open>generateAbstract\<close>, catch it and throw a new error whose
  message carries the text of the caught one.
\<close>

theorem provider_failure_outcomes:
  "(invokeLLM manager (keywordPrompt document) = Inl e \<longrightarrow>
      extractKeywords manager P document = Inr defaultKeywords) \<and>
   (invokeLLM manager (insightPrompt document) = Inl e \<longrightarrow>
      analyzeInsights manager P document = Inr defaultInsights) \<and>
   (invokeLLM manager (questionPrompt document) = Inl e \<longrightarrow>
      generateQuestions manager document = Inr []) \<and>
   (invokeLLM manager (summaryPrompt document options) = Inl e \<longrightarrow>
      summarizeDocument manager document options =
        Inl (JSError ''Error'' (''Failed to generate summary: '' @ errorToString e))) \<and>
   (invokeLLM manager (abstractPrompt document) = Inl e \<longrightarrow>
      generateAbstract manager document =
        Inl (JSError ''Error'' (''Failed to generate abstract: '' @ errorToString e)))"
  by (simp add: extractKeywords_def analyzeInsights_def generateQuestions_def
      summarizeDocument_def generateAbstract_def)

theorem provider_failure_witness:
  "extractKeywords rateLimited noParser sampleDocument = Inr defaultKeywords \<and>
   analyzeInsights rateLimited noParser sampleDocument = Inr defaultInsights \<and>
   generateQuestions rateLimited sampleDocument = Inr [] \<and>
   summarizeDocument rateLimited sampleDocument noOptions =
     Inl (JSError ''Error'' ''Failed to generate summary: Error: 429 rate limit exceeded'') \<and>
   generateAbstract rateLimited sampleDocument =
     Inl (JSError ''Error'' ''Failed to generate abstract: Error: 429 rate limit exceeded'')"
proof -
  have f: "\<And>prompt. invokeLLM rateLimited prompt
             = Inl (JSError ''Error'' ''429 rate limit exceeded'')"
    by (simp add: invokeLLM_def rateLimited_def)
  show ?thesis
    using provider_failure_outcomes[of rateLimited sampleDocument
        "JSError ''Error'' ''429 rate limit exceeded''" noParser noOptions]
    by (simp add: f)
qed

section \<open>Properties of the keyword retrieval\<close>

lemma scoreContent_literal:
  assumes "literalEngine RegExp" "\<forall>word \<in> set ws. plainPattern word"
  shows "scoreContent RegExp text ws acc =
           Inr (acc + sum_list (map (\<lambda>word. literalMatchCount word text) ws))"
  using assms by (induction ws arbitrary: acc) (auto simp: literalEngine_def)

lemma scoreChunks_literal:
  assumes "literalEngine RegExp" "\<forall>word \<in> set ws. plainPattern word"
  shows "scoreChunks RegExp ws chunks =
           Inr (map (\<lambda>chunk. (chunk, sum_list (map (\<lambda>word. literalMatchCount word
                       (toLowerCase (DocumentChunk.content chunk))) ws))) chunks)"
  by (induction chunks) (simp_all add: scoreContent_literal[OF assms])

lemma insort_key_map:
  "insort_key k (f x) (map f xs) = map f (insort_key (\<lambda>a. k (f a)) x xs)"
  by (induction xs) simp_all

lemma sort_key_map: "sort_key k (map f xs) = map f (sort_key (\<lambda>a. k (f a)) xs)"
  by (induction xs) (simp_all add: insort_key_map)

lemma findSimilarConcepts_literal:
  assumes "literalEngine RegExp"
    "\<forall>word \<in> set (splitChar CHR '' '' (toLowerCase query)). plainPattern word"
  shows "findSimilarConcepts RegExp chunks query = Inr (take 5 (rankedChunks query chunks))"
proof -
  let ?sc = "literalScore query"
  have "scoreChunks RegExp (splitChar CHR '' '' (toLowerCase query)) chunks =
          Inr (map (\<lambda>chunk. (chunk, ?sc chunk)) chunks)"
    using scoreChunks_literal[OF assms] by (simp add: literalScore_def)
  moreover have "map fst (take 5 (sortByScore (filter (\<lambda>item. snd item > 0)
                    (map (\<lambda>chunk. (chunk, ?sc chunk)) chunks))))
                 = take 5 (rankedChunks query chunks)"
    by (simp add: sortByScore_def rankedChunks_def filter_map sort_key_map take_map o_def)
  ultimately show ?thesis
    by (simp add: findSimilarConcepts_def)
qed

lemma rankedChunks_sorted:
  "sorted_wrt (\<lambda>a b. literalScore query b \<le> literalScore query a) (rankedChunks query chunks)"
proof -
  have "sorted (map (\<lambda>chunk. - int (literalScore query chunk)) (rankedChunks query chunks))"
    unfolding rankedChunks_def by (rule sorted_sort_key)
  then show ?thesis by (simp add: sorted_map)
qed

text \<open>
  Stability: the ranked chunks of one score are the chunks of that score in their
  original order, and no chunk of score 0 is ranked.
\<close>

lemma rankedChunks_stable:
  "filter (\<lambda>c. literalScore query c = k) (rankedChunks query chunks) =
     (if 0 < k then filter (\<lambda>c. literalScore query c = k) chunks else [])"
proof -
  have "filter (\<lambda>c. - int (literalScore query c) = - int k) (rankedChunks query chunks)
        = filter (\<lambda>c. - int (literalScore query c) = - int k)
            (filter (\<lambda>chunk. 0 < literalScore query chunk) chunks)"
    unfolding rankedChunks_def by (rule sort_key_stable)
  then have "filter (\<lambda>c. literalScore query c = k) (rankedChunks query chunks)
        = filter (\<lambda>c. literalScore query c = k \<and> 0 < literalScore query c) chunks"
    by (simp add: conj_commute)
  also have "\<dots> = (if 0 < k then filter (\<lambda>c. literalScore query c = k) chunks else [])"
    by (cases "0 < k") (auto intro: filter_cong simp: filter_empty_conv)
  finally show ?thesis .
qed

lemma example_tokens: "splitChar CHR '' '' (toLowerCase ''cat dog'') = [''cat'', ''dog'']"
  by code_simp

lemma example_ranked: "take 5 (rankedChunks ''cat dog'' exampleChunks) = take 2 exampleChunks"
  unfolding rankedChunks_def by code_simp

lemma plainEngine_literal: "literalEngine plainEngine"
  by (simp add: literalEngine_def plainEngine_def)

text \<open>
  What the code computes when the engine takes the words of the query literally. The
  words are the pieces of the lower-cased query between single space characters. If no
  word has a pattern syntax character, the call returns the first 5 of the chunks with a
  positive score, sorted by falling score, chunks of equal score in their original order,
  where the score of a chunk is the sum over the words of the matches of the word in the
  lower-cased text of the chunk. For the chunks \<open>the cat sat\<close>, \<open>the dog ran\<close>,
  \<open>birds fly\<close> and the query \<open>cat dog\<close> these are the first two chunks in that order.
\<close>

theorem findSimilarConcepts_ranking:
  assumes "literalEngine RegExp"
  shows "((\<forall>word \<in> set (splitChar CHR '' '' (toLowerCase query)). plainPattern word) \<longrightarrow>
     (\<exists>ranked.
        findSimilarConcepts RegExp chunks query = Inr (take 5 ranked) \<and>
        sorted_wrt (\<lambda>a b. literalScore query b \<le> literalScore query a) ranked \<and>
        (\<forall>k. filter (\<lambda>c. literalScore query c = k) ranked =
             (if 0 < k then filter (\<lambda>c. literalScore query c = k) chunks else [])))) \<and>
     findSimilarConcepts RegExp exampleChunks ''cat dog'' = Inr (take 2 exampleChunks)"
proof (intro conjI impI)
  assume plain: "\<forall>word \<in> set (splitChar CHR '' '' (toLowerCase query)). plainPattern word"
  show "\<exists>ranked.
        findSimilarConcepts RegExp chunks query = Inr (take 5 ranked) \<and>
        sorted_wrt (\<lambda>a b. literalScore query b \<le> literalScore query a) ranked \<and>
        (\<forall>k. filter (\<lambda>c. literalScore query c = k) ranked =
             (if 0 < k then filter (\<lambda>c. literalScore query c = k) chunks else []))"
    using findSimilarConcepts_literal[OF assms plain] rankedChunks_sorted rankedChunks_stable
    by blast
next
  have "\<forall>word \<in> set (splitChar CHR '' '' (toLowerCase ''cat dog'')). plainPattern word"
    unfolding example_tokens by (simp add: plainPattern_def syntaxCharacters_def)
  from findSimilarConcepts_literal[OF assms this]
  show "findSimilarConcepts RegExp exampleChunks ''cat dog'' = Inr (take 2 exampleChunks)"
    by (simp only: example_ranked)
qed

text \<open>
  With the engine of the examples: the query \<open>cat dog\<close> gives the first two chunks, and
  the query \<open>dog the\<close> ranks the second chunk (score 2) before the first (score 1).
\<close>

theorem findSimilarConcepts_ranking_witness:
  "findSimilarConcepts plainEngine exampleChunks ''cat dog'' = Inr (take 2 exampleChunks) \<and>
   findSimilarConcepts plainEngine exampleChunks ''dog the''
     = Inr [textChunk ''c1'' 1 ''the dog ran'', textChunk ''c0'' 0 ''the cat sat''] \<and>
   (\<exists>ranked.
        findSimilarConcepts plainEngine exampleChunks ''dog the'' = Inr (take 5 ranked) \<and>
        sorted_wrt (\<lambda>a b. literalScore ''dog the'' b \<le> literalScore ''dog the'' a) ranked \<and>
        (\<forall>k. filter (\<lambda>c. literalScore ''dog the'' c = k) ranked =
             (if 0 < k then filter (\<lambda>c. literalScore ''dog the'' c = k) exampleChunks
              else [])))"
proof -
  have t: "splitChar CHR '' '' (toLowerCase ''dog the'') = [''dog'', ''the'']"
    by code_simp
  have plain: "\<forall>word \<in> set (splitChar CHR '' '' (toLowerCase ''dog the'')). plainPattern word"
    unfolding t by (simp add: plainPattern_def syntaxCharacters_def)
  have v: "findSimilarConcepts plainEngine exampleChunks ''dog the''
     = Inr [textChunk ''c1'' 1 ''the dog ran'', textChunk ''c0'' 0 ''the cat sat'']"
    by code_simp
  show ?thesis
    using findSimilarConcepts_ranking[OF plainEngine_literal, of "''dog the''" exampleChunks]
      plain v
    by blast
qed

text \<open>
  Whatever the engine does with the words, a call that returns gives at most 5 chunks,
  all of them chunks of the input.
\<close>

lemma scoreChunks_chunks:
  "scoreChunks RegExp ws chunks = Inr scored \<Longrightarrow> map fst scored = chunks"
  by (induction chunks arbitrary: scored) (auto split: sum.splits)

lemma findSimilarConcepts_at_most_five:
  assumes "findSimilarConcepts RegExp chunks query = Inr result"
  shows "length result \<le> 5 \<and> set result \<subseteq> set chunks"
proof -
  from assms obtain scored where
    s: "scoreChunks RegExp (splitChar CHR '' '' (toLowerCase query)) chunks = Inr scored"
    and r: "result = map fst (take 5 (sortByScore (filter (\<lambda>item. snd item > 0) scored)))"
    by (auto simp: findSimilarConcepts_def Let_def split: sum.splits)
  have "set result \<subseteq> set (map fst scored)"
    unfolding r sortByScore_def by (auto dest!: in_set_takeD)
  then show ?thesis using scoreChunks_chunks[OF s] r by simp
qed

text \<open>
  Where cutting the query at single spaces gives its tokens, no piece being empty, and no
  token has a pattern syntax character, the call returns what the specification
  describes.
\<close>

lemma whitespaceTokens_nonempty: "t \<in> set (whitespaceTokens s) \<Longrightarrow> t \<noteq> []"
proof (induction s rule: whitespaceTokens.induct)
  case (1 s)
  let ?rest = "dropWhile isWhitespace s"
  show ?case
  proof (cases "?rest = []")
    case True
    with "1.prems" show ?thesis by (subst (asm) whitespaceTokens.simps) simp
  next
    case False
    have hd: "\<not> isWhitespace (hd ?rest)" using False hd_dropWhile by metis
    have eq: "whitespaceTokens s = takeWhile (\<lambda>c. \<not> isWhitespace c) ?rest
                # whitespaceTokens (dropWhile (\<lambda>c. \<not> isWhitespace c) ?rest)"
      using False by (subst whitespaceTokens.simps) (simp add: Let_def)
    from "1.prems" have
      "t = takeWhile (\<lambda>c. \<not> isWhitespace c) ?rest \<or>
       t \<in> set (whitespaceTokens (dropWhile (\<lambda>c. \<not> isWhitespace c) ?rest))"
      unfolding eq by simp
    then show ?thesis
    proof
      assume "t = takeWhile (\<lambda>c. \<not> isWhitespace c) ?rest"
      then show ?thesis using False hd by (cases ?rest) auto
    next
      assume "t \<in> set (whitespaceTokens (dropWhile (\<lambda>c. \<not> isWhitespace c) ?rest))"
      then show ?thesis using "1.IH"[OF refl False] by simp
    qed
  qed
qed

lemma literalScore_specScore:
  assumes "splitChar CHR '' '' (toLowerCase query) = whitespaceTokens (toLowerCase query)"
  shows "literalScore query chunk = specScore query chunk"
proof -
  have "map (\<lambda>word. literalMatchCount word (toLowerCase (DocumentChunk.content chunk)))
            (whitespaceTokens (toLowerCase query))
        = map (\<lambda>token. countLiteral token (toLowerCase (DocumentChunk.content chunk)))
            (whitespaceTokens (toLowerCase query))"
    by (rule map_cong) (auto simp: literalMatchCount_def dest: whitespaceTokens_nonempty)
  then show ?thesis
    unfolding literalScore_def specScore_def assms by (rule arg_cong[where f = sum_list])
qed

lemma findSimilarConcepts_meets_spec:
  assumes "literalEngine RegExp"
    and "\<forall>word \<in> set (splitChar CHR '' '' (toLowerCase query)). plainPattern word"
    and "splitChar CHR '' '' (toLowerCase query) = whitespaceTokens (toLowerCase query)"
  shows "findSimilarConcepts RegExp chunks query = Inr (specRetrieve query chunks)"
proof -
  have "literalScore query = specScore query"
    using literalScore_specScore[OF assms(3)] by (rule ext)
  then have "rankedChunks query chunks =
      sort_key (\<lambda>chunk. - int (specScore query chunk))
        (filter (\<lambda>chunk. specScore query chunk > 0) chunks)"
    by (simp add: rankedChunks_def)
  then show ?thesis
    using findSimilarConcepts_literal[OF assms(1,2), of chunks]
    by (simp add: specRetrieve_def)
qed

text \<open>
  C3. The claim: for every query, the score of a chunk is the sum over the tokens of the
  query, separated by white space, of the occurrences of the token in the chunk, and only
  chunks of positive score are returned, by falling score, at most 5. The code cuts the
  lower-cased query at every single space and keeps the empty pieces, and it hands each
  piece to the pattern compiler. The query \<open>cat  dog\<close>, with two spaces, has an empty
  piece; the empty pattern matches at every position, so the third of the chunks
  \<open>the cat sat\<close>, \<open>the dog ran\<close>, \<open>birds fly\<close> scores 10 and is returned with the other
  two, although its score by the claim is 0 and the retrieval the claim describes returns
  the first two chunks only.
\<close>

theorem retrieval_counts_empty_words:
  "findSimilarConcepts plainEngine exampleChunks ''cat  dog'' = Inr exampleChunks \<and>
   specScore ''cat  dog'' (textChunk ''c2'' 2 ''birds fly'') = 0 \<and>
   specRetrieve ''cat  dog'' exampleChunks = take 2 exampleChunks"
  by code_simp

end
